theory Spec2Isabelle
  imports Main
begin

section \<open>The zlib and libpng demo: data model\<close>

text \<open>
  The repository is one C program, \<^verbatim>\<open>src/main.c\<close>, and an earlier copy of it that only
  exercises zlib. Both compress a fixed string into a 100-byte stack array, decompress
  it into a second 100-byte array, terminate the result with a NUL byte and print it.
  \<^verbatim>\<open>main.c\<close> then reports the libpng versions.

  The routines \<^verbatim>\<open>compress\<close>, \<^verbatim>\<open>uncompress\<close> and \<^verbatim>\<open>png_access_version_number\<close>
  and the macro \<^verbatim>\<open>PNG_LIBPNG_VER_STRING\<close> come from the two linked libraries.
  Their code is not part of the repository, so they are parameters of the model.
\<close>

type_synonym Bytef = char
type_synonym uLong = nat

text \<open>A cell of a stack array: \<open>None\<close> is a byte that was never written (indeterminate).\<close>

type_synonym cell = "Bytef option"

definition Z_OK :: int where
  "Z_OK = 0"

definition NUL :: char where
  "NUL = CHR 0x00"

definition nl :: string where
  "nl = [CHR 0x0A]"

text \<open>
  A buffer-to-buffer routine \<^verbatim>\<open>int f(Bytef *dest, uLongf *destLen, const Bytef *source,
  uLong sourceLen)\<close> is a function from the capacity \<^verbatim>\<open>*destLen\<close> on entry and the
  \<^verbatim>\<open>sourceLen\<close> bytes of \<^verbatim>\<open>source\<close> to its return value and the bytes it stored
  at \<^verbatim>\<open>dest\<close>; their number is \<^verbatim>\<open>*destLen\<close> on exit.
\<close>

record libs =
  compress :: "uLong \<Rightarrow> Bytef list \<Rightarrow> int \<times> Bytef list"
  uncompress :: "uLong \<Rightarrow> Bytef list \<Rightarrow> int \<times> Bytef list"
  png_access_version_number :: nat
  PNG_LIBPNG_VER_STRING :: string

datatype stream = Stdout | Stderr

text \<open>What a run does that can be seen from outside: library calls with the value
  each returned, and the strings written to the two streams, in program order.\<close>

datatype event =
    is_compress: Called_compress (status: int)
  | is_uncompress: Called_uncompress (status: int)
  | is_version_query: Called_png_access_version_number (version: nat)
  | is_print: Printed (dest: stream) (chars: string)

text \<open>Writing past the end of an array, or reading a byte that was never written, is
  undefined behaviour in C: the run has no exit status then.\<close>

datatype outcome = Exit int | Undefined_behaviour

text \<open>The local variables of \<^verbatim>\<open>main\<close> and the events so far.\<close>

record frame =
  compressed :: "cell list"
  decompressed :: "cell list"
  compressedSize :: uLong
  decompressedSize :: uLong
  trace :: "event list"

record run = frame +
  outcome :: outcome

definition halt :: "outcome \<Rightarrow> frame \<Rightarrow> run" where
  "halt oc f = frame.extend f \<lparr>outcome = oc\<rparr>"

definition fprintf :: "stream \<Rightarrow> string \<Rightarrow> frame \<Rightarrow> frame" where
  "fprintf strm s f = f\<lparr>trace := trace f @ [Printed strm s]\<rparr>"

definition printf :: "string \<Rightarrow> frame \<Rightarrow> frame" where
  "printf s f = fprintf Stdout s f"

section \<open>C strings and arrays\<close>

text \<open>The characters of a string literal that \<^verbatim>\<open>%s\<close> prints and \<^verbatim>\<open>strlen\<close> counts:
  those before the first NUL.\<close>

definition c_lit :: "string \<Rightarrow> string" where
  "c_lit s = takeWhile (\<lambda>c. c \<noteq> NUL) s"

definition strlen :: "string \<Rightarrow> nat" where
  "strlen s = length (c_lit s)"

text \<open>\<^verbatim>\<open>%s\<close> on an array: the bytes before the first NUL. Running off the end of the
  array, or onto a byte that was never written, is undefined.\<close>

fun c_str :: "cell list \<Rightarrow> string option" where
  "c_str [] = None"
| "c_str (None # cs) = None"
| "c_str (Some c # cs) = (if c = NUL then Some [] else map_option ((#) c) (c_str cs))"

text \<open>A library call that stores \<open>out\<close> at the start of an array; storing more than
  the array holds is undefined.\<close>

definition store :: "cell list \<Rightarrow> Bytef list \<Rightarrow> cell list option" where
  "store buf out =
     (if length out \<le> length buf then Some (map Some out @ drop (length out) buf) else None)"

text \<open>A library call that reads the first \<open>n\<close> bytes of an array.\<close>

definition load :: "cell list \<Rightarrow> nat \<Rightarrow> Bytef list option" where
  "load buf n =
     (if n \<le> length buf \<and> None \<notin> set (take n buf) then Some (map the (take n buf)) else None)"

text \<open>The assignment \<^verbatim>\<open>buf[i] = c\<close>.\<close>

definition put :: "cell list \<Rightarrow> nat \<Rightarrow> Bytef \<Rightarrow> cell list option" where
  "put buf i c = (if i < length buf then Some (buf[i := Some c]) else None)"

text \<open>\<^verbatim>\<open>%lu\<close>: an unsigned number in decimal.\<close>

definition digit :: "nat \<Rightarrow> char" where
  "digit d = ''0123456789'' ! d"

fun fmt_lu :: "nat \<Rightarrow> string" where
  "fmt_lu n = (if n < 10 then [digit n] else fmt_lu (n div 10) @ [digit (n mod 10)])"

declare fmt_lu.simps [simp del]

section \<open>The program\<close>

definition text_str :: string where
  "text_str = ''Hello from zlib via conda forge!''"

text \<open>
  \<^verbatim>\<open>src/main.c\<close>, lines 30 to 72. When a library call reports a failure, \<^verbatim>\<open>main\<close>
  returns without reading \<^verbatim>\<open>dest\<close> or \<^verbatim>\<open>*destLen\<close> again, and the model leaves both
  as they were.
\<close>

definition main :: "libs \<Rightarrow> run" where
  "main e =
    (let f = \<lparr>compressed = replicate 100 None, decompressed = replicate 100 None,
              compressedSize = 100, decompressedSize = 100, trace = []\<rparr>;
         (rc, out) = compress e (compressedSize f) (take (strlen text_str) text_str);
         f = f\<lparr>trace := trace f @ [Called_compress rc]\<rparr>
     in if rc \<noteq> Z_OK then halt (Exit 1) (printf (''Fehler bei compress()'' @ nl) f)
     else
    (let f = f\<lparr>compressedSize := length out\<rparr>
     in case store (compressed f) out of
       None \<Rightarrow> halt Undefined_behaviour f
     | Some buf \<Rightarrow>
    (let f = f\<lparr>compressed := buf\<rparr>
     in case load (compressed f) (compressedSize f) of
       None \<Rightarrow> halt Undefined_behaviour f
     | Some src \<Rightarrow>
    (let (rc, out) = uncompress e (decompressedSize f) src;
         f = f\<lparr>trace := trace f @ [Called_uncompress rc]\<rparr>
     in if rc \<noteq> Z_OK then halt (Exit 1) (printf (''Fehler bei uncompress()'' @ nl) f)
     else
    (let f = f\<lparr>decompressedSize := length out\<rparr>
     in case store (decompressed f) out of
       None \<Rightarrow> halt Undefined_behaviour f
     | Some buf \<Rightarrow>
    (let f = f\<lparr>decompressed := buf\<rparr>
     in case put (decompressed f) (decompressedSize f) NUL of
       None \<Rightarrow> halt Undefined_behaviour f
     | Some buf \<Rightarrow>
    (let f = f\<lparr>decompressed := buf\<rparr>;
         f = printf (''Original:     '' @ c_lit text_str @ nl) f
     in case c_str (decompressed f) of
       None \<Rightarrow> halt Undefined_behaviour f
     | Some shown \<Rightarrow>
    (let f = printf (''Dekomprimiert: '' @ shown @ nl) f;
         f = printf (nl @ ''libpng compile-time version: ''
                       @ c_lit (PNG_LIBPNG_VER_STRING e) @ nl) f;
         png_runtime_ver = png_access_version_number e;
         f = f\<lparr>trace := trace f @ [Called_png_access_version_number png_runtime_ver]\<rparr>;
         f = printf (''libpng runtime version (numeric): '' @ fmt_lu png_runtime_ver @ nl) f
     in if png_runtime_ver = 0
        then halt (Exit 1) (fprintf Stderr
               (''Fehler: libpng Runtime-Version konnte nicht ermittelt werden!'' @ nl) f)
        else halt (Exit 0)
               (printf (''zlib und libpng sind erfolgreich gelinkt und verwendbar.'' @ nl) f)))))))))"

text \<open>The earlier copy of the program (no libpng), lines 5 to 29 of its file.\<close>

definition main_zlib_only :: "libs \<Rightarrow> run" where
  "main_zlib_only e =
    (let f = \<lparr>compressed = replicate 100 None, decompressed = replicate 100 None,
              compressedSize = 100, decompressedSize = 100, trace = []\<rparr>;
         (rc, out) = compress e (compressedSize f) (take (strlen text_str) text_str);
         f = f\<lparr>trace := trace f @ [Called_compress rc]\<rparr>
     in if rc \<noteq> Z_OK then halt (Exit 1) (printf (''Fehler bei compress()'' @ nl) f)
     else
    (let f = f\<lparr>compressedSize := length out\<rparr>
     in case store (compressed f) out of
       None \<Rightarrow> halt Undefined_behaviour f
     | Some buf \<Rightarrow>
    (let f = f\<lparr>compressed := buf\<rparr>
     in case load (compressed f) (compressedSize f) of
       None \<Rightarrow> halt Undefined_behaviour f
     | Some src \<Rightarrow>
    (let (rc, out) = uncompress e (decompressedSize f) src;
         f = f\<lparr>trace := trace f @ [Called_uncompress rc]\<rparr>
     in if rc \<noteq> Z_OK then halt (Exit 1) (printf (''Fehler bei uncompress()'' @ nl) f)
     else
    (let f = f\<lparr>decompressedSize := length out\<rparr>
     in case store (decompressed f) out of
       None \<Rightarrow> halt Undefined_behaviour f
     | Some buf \<Rightarrow>
    (let f = f\<lparr>decompressed := buf\<rparr>
     in case put (decompressed f) (decompressedSize f) NUL of
       None \<Rightarrow> halt Undefined_behaviour f
     | Some buf \<Rightarrow>
    (let f = f\<lparr>decompressed := buf\<rparr>;
         f = printf (''Original: '' @ c_lit text_str @ nl) f
     in case c_str (decompressed f) of
       None \<Rightarrow> halt Undefined_behaviour f
     | Some shown \<Rightarrow>
         halt (Exit 0) (printf (''Dekomprimiert: '' @ shown @ nl) f))))))))"

section \<open>Observations on a run\<close>

text \<open>A library call succeeded when it returned \<^verbatim>\<open>Z_OK\<close>; the version query
  succeeded when it returned a number other than the sentinel 0.\<close>

definition compress_succeeded :: "run \<Rightarrow> bool" where
  "compress_succeeded r \<longleftrightarrow> Called_compress Z_OK \<in> set (trace r)"

definition compress_failed :: "run \<Rightarrow> bool" where
  "compress_failed r \<longleftrightarrow> (\<exists>ev \<in> set (trace r). is_compress ev \<and> status ev \<noteq> Z_OK)"

definition uncompress_called :: "run \<Rightarrow> bool" where
  "uncompress_called r \<longleftrightarrow> (\<exists>ev \<in> set (trace r). is_uncompress ev)"

definition uncompress_succeeded :: "run \<Rightarrow> bool" where
  "uncompress_succeeded r \<longleftrightarrow> Called_uncompress Z_OK \<in> set (trace r)"

definition uncompress_failed :: "run \<Rightarrow> bool" where
  "uncompress_failed r \<longleftrightarrow> (\<exists>ev \<in> set (trace r). is_uncompress ev \<and> status ev \<noteq> Z_OK)"

definition version_queried :: "run \<Rightarrow> bool" where
  "version_queried r \<longleftrightarrow> (\<exists>ev \<in> set (trace r). is_version_query ev)"

definition version_query_succeeded :: "run \<Rightarrow> bool" where
  "version_query_succeeded r \<longleftrightarrow>
     (\<exists>ev \<in> set (trace r). is_version_query ev \<and> version ev \<noteq> 0)"

definition version_query_failed :: "run \<Rightarrow> bool" where
  "version_query_failed r \<longleftrightarrow> Called_png_access_version_number 0 \<in> set (trace r)"

text \<open>What was written to a stream, one string for each call of \<^verbatim>\<open>printf\<close> or
  \<^verbatim>\<open>fprintf\<close>.\<close>

fun printed :: "stream \<Rightarrow> event list \<Rightarrow> string list" where
  "printed strm [] = []"
| "printed strm (Printed to s # tr) = (if to = strm then s # printed strm tr else printed strm tr)"
| "printed strm (_ # tr) = printed strm tr"

definition stdout :: "run \<Rightarrow> string list" where
  "stdout r = printed Stdout (trace r)"

definition stderr :: "run \<Rightarrow> string list" where
  "stderr r = printed Stderr (trace r)"

section \<open>The contract of the compression library\<close>

text \<open>
  Modelled from the spec: the compression primitive (zlib's \<^verbatim>\<open>compress\<close>, whose code
  is not in the repository). The spec asks that its output length be less than or equal
  to the declared buffer capacity, and that exceeding it be rejected by the routine
  rather than overflow: a call that returns \<^verbatim>\<open>Z_OK\<close> stored no more than the capacity
  it was given.
\<close>

definition compress_bounded :: "libs \<Rightarrow> bool" where
  "compress_bounded e \<longleftrightarrow>
     (\<forall>cap src out. compress e cap src = (Z_OK, out) \<longrightarrow> length out \<le> cap)"

text \<open>
  Modelled from the spec: the decompression primitive (zlib's \<^verbatim>\<open>uncompress\<close>, whose
  code is not in the repository). The spec calls it the inverse routine, reconstructing
  the original bytes from the encoded sequence: when it returns \<^verbatim>\<open>Z_OK\<close> on the
  output of a successful compression, it stored the bytes that were compressed.
\<close>

definition uncompress_inverts :: "libs \<Rightarrow> bool" where
  "uncompress_inverts e \<longleftrightarrow>
     (\<forall>cap src out cap' out'.
        compress e cap src = (Z_OK, out) \<and> uncompress e cap' out = (Z_OK, out')
          \<longrightarrow> out' = src)"

text \<open>
  Modelled from the spec: the two requirements together. Either routine may still
  fail; the contract only says what a success means.
\<close>

definition zlib_contract :: "libs \<Rightarrow> bool" where
  "zlib_contract e \<longleftrightarrow> compress_bounded e \<and> uncompress_inverts e"

section \<open>Test doubles for the libraries\<close>

definition test_libs ::
  "(uLong \<Rightarrow> Bytef list \<Rightarrow> int \<times> Bytef list) \<Rightarrow> (uLong \<Rightarrow> Bytef list \<Rightarrow> int \<times> Bytef list)
     \<Rightarrow> nat \<Rightarrow> libs" where
  "test_libs c u v =
     \<lparr>compress = c, uncompress = u, png_access_version_number = v,
      PNG_LIBPNG_VER_STRING = ''1.6.43''\<rparr>"

text \<open>A codec that stores the bytes behind a one-byte header; \<open>- 5\<close> and \<open>- 3\<close> are
  zlib's \<^verbatim>\<open>Z_BUF_ERROR\<close> and \<^verbatim>\<open>Z_DATA_ERROR\<close>.\<close>

definition stored_compress :: "uLong \<Rightarrow> Bytef list \<Rightarrow> int \<times> Bytef list" where
  "stored_compress cap src = (if length src < cap then (Z_OK, CHR ''S'' # src) else (- 5, []))"

definition stored_uncompress :: "uLong \<Rightarrow> Bytef list \<Rightarrow> int \<times> Bytef list" where
  "stored_uncompress cap src =
     (case src of
        [] \<Rightarrow> (- 3, [])
      | h # body \<Rightarrow> if length body \<le> cap then (Z_OK, body) else (- 5, []))"

text \<open>A routine that fails with a given status and stores nothing.\<close>

definition failing :: "int \<Rightarrow> uLong \<Rightarrow> Bytef list \<Rightarrow> int \<times> Bytef list" where
  "failing rc cap src = (rc, [])"

text \<open>A routine that reports success and stores bytes of its own choice.\<close>

definition answering :: "Bytef list \<Rightarrow> uLong \<Rightarrow> Bytef list \<Rightarrow> int \<times> Bytef list" where
  "answering bs cap src = (Z_OK, bs)"

definition good_libs :: libs where
  "good_libs = test_libs stored_compress stored_uncompress 10643"

definition no_compress_libs :: libs where
  "no_compress_libs = test_libs (failing (- 5)) stored_uncompress 10643"

definition no_uncompress_libs :: libs where
  "no_uncompress_libs = test_libs stored_compress (failing (- 3)) 10643"

definition no_version_libs :: libs where
  "no_version_libs = test_libs stored_compress stored_uncompress 0"

text \<open>A decompression that reports success and hands back other bytes than were
  compressed, and one that reports success and fills the whole array.\<close>

definition lying_libs :: libs where
  "lying_libs = test_libs stored_compress (answering ''Goodbye'') 10643"

definition full_libs :: libs where
  "full_libs = test_libs stored_compress (answering (replicate 100 (CHR ''A''))) 10643"

text \<open>A compression that reports success and stores one byte more than the array holds.\<close>

definition bursting_libs :: libs where
  "bursting_libs = test_libs (answering (replicate 101 (CHR ''A''))) stored_uncompress 10643"


section \<open>Arrays and strings: basic facts\<close>

lemma strlen_text_str: "strlen text_str = 32"
  by (simp add: strlen_def c_lit_def text_str_def NUL_def)

lemma c_lit_text_str: "c_lit text_str = text_str"
  by (simp add: c_lit_def text_str_def NUL_def)

lemma load_store:
  assumes "length out \<le> length buf"
  shows "load (map Some out @ drop (length out) buf) (length out) = Some out"
proof -
  have "take (length out) (map Some out @ drop (length out) buf) = map Some out"
    by simp
  moreover have "map the (map Some out) = out"
    by (simp add: comp_def)
  ultimately show ?thesis
    using assms by (auto simp add: load_def)
qed

lemma c_str_terminated: "c_str (map Some out @ Some NUL # rest) = Some (c_lit out)"
  by (induction out) (simp_all add: c_lit_def)

lemma terminate_stored:
  assumes "length out < length buf"
  shows "(map Some out @ drop (length out) buf)[length out := Some c]
           = map Some out @ Some c # drop (Suc (length out)) buf"
proof -
  from assms obtain x xs where "drop (length out) buf = x # xs"
    by (cases "drop (length out) buf") simp_all
  moreover from this have "xs = drop (Suc (length out)) buf"
    by (metis drop_Suc drop_drop list.sel(3) plus_1_eq_Suc tl_drop)
  ultimately show ?thesis
    by (simp add: list_update_append)
qed

lemma take_text_str: "take 32 text_str = text_str"
  by (simp add: text_str_def)

lemma load_stored:
  "length out \<le> n \<Longrightarrow>
     load (map Some out @ replicate (n - length out) None) (length out) = Some out"
  using load_store [of out "replicate n None"] by simp

lemma put_stored:
  "length out < n \<Longrightarrow>
     (map Some out @ replicate (n - length out) None)[length out := Some c]
       = map Some out @ Some c # replicate (n - Suc (length out)) None"
  using terminate_stored [of out "replicate n None" c] by simp

lemmas main_simps =
  take_text_str Let_def halt_def printf_def fprintf_def frame.defs store_def put_def
  strlen_text_str c_lit_text_str load_stored put_stored c_str_terminated

section \<open>The runs of the program, case by case\<close>

text \<open>Every run of \<^verbatim>\<open>main\<close> is one of seven: where it stopped, the local variables
  then and what it had done.\<close>

lemma main_cases [case_names compress_failed compress_overflow uncompress_failed
    uncompress_overflow terminator_outside version_failed success]:
  obtains
    rc out where
      "compress e 100 text_str = (rc, out)" and
      "rc \<noteq> Z_OK" and
      "main e =
        \<lparr>compressed = replicate 100 None,
          decompressed = replicate 100 None,
          compressedSize = 100, decompressedSize = 100,
          trace =
            [Called_compress rc,
             Printed Stdout (''Fehler bei compress()'' @ nl)],
          outcome = Exit 1\<rparr>"
  | out where
      "compress e 100 text_str = (Z_OK, out)" and
      "100 < length out" and
      "main e =
        \<lparr>compressed = replicate 100 None,
          decompressed = replicate 100 None,
          compressedSize = length out, decompressedSize = 100,
          trace =
            [Called_compress Z_OK],
          outcome = Undefined_behaviour\<rparr>"
  | out rc out' where
      "compress e 100 text_str = (Z_OK, out)" and
      "length out \<le> 100" and
      "uncompress e 100 out = (rc, out')" and
      "rc \<noteq> Z_OK" and
      "main e =
        \<lparr>compressed = map Some out @ replicate (100 - length out) None,
          decompressed = replicate 100 None,
          compressedSize = length out, decompressedSize = 100,
          trace =
            [Called_compress Z_OK,
             Called_uncompress rc,
             Printed Stdout (''Fehler bei uncompress()'' @ nl)],
          outcome = Exit 1\<rparr>"
  | out out' where
      "compress e 100 text_str = (Z_OK, out)" and
      "length out \<le> 100" and
      "uncompress e 100 out = (Z_OK, out')" and
      "100 < length out'" and
      "main e =
        \<lparr>compressed = map Some out @ replicate (100 - length out) None,
          decompressed = replicate 100 None,
          compressedSize = length out, decompressedSize = length out',
          trace =
            [Called_compress Z_OK,
             Called_uncompress Z_OK],
          outcome = Undefined_behaviour\<rparr>"
  | out out' where
      "compress e 100 text_str = (Z_OK, out)" and
      "length out \<le> 100" and
      "uncompress e 100 out = (Z_OK, out')" and
      "length out' = 100" and
      "main e =
        \<lparr>compressed = map Some out @ replicate (100 - length out) None,
          decompressed = map Some out',
          compressedSize = length out, decompressedSize = 100,
          trace =
            [Called_compress Z_OK,
             Called_uncompress Z_OK],
          outcome = Undefined_behaviour\<rparr>"
  | out out' where
      "compress e 100 text_str = (Z_OK, out)" and
      "length out \<le> 100" and
      "uncompress e 100 out = (Z_OK, out')" and
      "length out' < 100" and
      "png_access_version_number e = 0" and
      "main e =
        \<lparr>compressed = map Some out @ replicate (100 - length out) None,
          decompressed = map Some out' @ Some NUL # replicate (100 - Suc (length out')) None,
          compressedSize = length out, decompressedSize = length out',
          trace =
            [Called_compress Z_OK,
             Called_uncompress Z_OK,
             Printed Stdout (''Original:     '' @ text_str @ nl),
             Printed Stdout (''Dekomprimiert: '' @ c_lit out' @ nl),
             Printed Stdout (nl @ ''libpng compile-time version: '' @ c_lit (PNG_LIBPNG_VER_STRING e) @ nl),
             Called_png_access_version_number 0,
             Printed Stdout (''libpng runtime version (numeric): '' @ fmt_lu 0 @ nl),
             Printed Stderr (''Fehler: libpng Runtime-Version konnte nicht ermittelt werden!'' @ nl)],
          outcome = Exit 1\<rparr>"
  | out out' where
      "compress e 100 text_str = (Z_OK, out)" and
      "length out \<le> 100" and
      "uncompress e 100 out = (Z_OK, out')" and
      "length out' < 100" and
      "png_access_version_number e \<noteq> 0" and
      "main e =
        \<lparr>compressed = map Some out @ replicate (100 - length out) None,
          decompressed = map Some out' @ Some NUL # replicate (100 - Suc (length out')) None,
          compressedSize = length out, decompressedSize = length out',
          trace =
            [Called_compress Z_OK,
             Called_uncompress Z_OK,
             Printed Stdout (''Original:     '' @ text_str @ nl),
             Printed Stdout (''Dekomprimiert: '' @ c_lit out' @ nl),
             Printed Stdout (nl @ ''libpng compile-time version: '' @ c_lit (PNG_LIBPNG_VER_STRING e) @ nl),
             Called_png_access_version_number (png_access_version_number e),
             Printed Stdout (''libpng runtime version (numeric): '' @ fmt_lu (png_access_version_number e) @ nl),
             Printed Stdout (''zlib und libpng sind erfolgreich gelinkt und verwendbar.'' @ nl)],
          outcome = Exit 0\<rparr>"
proof -
  obtain rc out where c: "compress e 100 text_str = (rc, out)"
    by (cases "compress e 100 text_str")
  obtain rc' out' where u: "uncompress e 100 out = (rc', out')"
    by (cases "uncompress e 100 out")
  consider "rc \<noteq> Z_OK" | "rc = Z_OK" "100 < length out"
    | "rc = Z_OK" "length out \<le> 100" "rc' \<noteq> Z_OK"
    | "rc = Z_OK" "length out \<le> 100" "rc' = Z_OK" "100 < length out'"
    | "rc = Z_OK" "length out \<le> 100" "rc' = Z_OK" "length out' = 100"
    | "rc = Z_OK" "length out \<le> 100" "rc' = Z_OK" "length out' < 100"
    by linarith
  then show ?thesis
  proof cases
    case 1
    with c u show ?thesis
      by (intro that(1)) (simp_all add: main_def main_simps)
  next
    case 2
    with c u show ?thesis
      by (intro that(2)) (simp_all add: main_def main_simps)
  next
    case 3
    with c u show ?thesis
      by (intro that(3)) (simp_all add: main_def main_simps)
  next
    case 4
    with c u show ?thesis
      by (intro that(4)) (simp_all add: main_def main_simps)
  next
    case 5
    with c u show ?thesis
      by (intro that(5)) (simp_all add: main_def main_simps)
  next
    case 6
    show ?thesis
    proof (cases "png_access_version_number e = 0")
      case True
      with 6 c u show ?thesis
        by (intro that(6)) (simp_all add: main_def main_simps)
    next
      case False
      with 6 c u show ?thesis
        by (intro that(7)) (simp_all add: main_def main_simps)
    qed
  qed
qed

text \<open>The earlier copy has the first five and one successful run.\<close>

lemma main_zlib_only_cases [case_names compress_failed compress_overflow uncompress_failed
    uncompress_overflow terminator_outside success]:
  obtains
    rc out where
      "compress e 100 text_str = (rc, out)" and
      "rc \<noteq> Z_OK" and
      "main_zlib_only e =
        \<lparr>compressed = replicate 100 None,
          decompressed = replicate 100 None,
          compressedSize = 100, decompressedSize = 100,
          trace =
            [Called_compress rc,
             Printed Stdout (''Fehler bei compress()'' @ nl)],
          outcome = Exit 1\<rparr>"
  | out where
      "compress e 100 text_str = (Z_OK, out)" and
      "100 < length out" and
      "main_zlib_only e =
        \<lparr>compressed = replicate 100 None,
          decompressed = replicate 100 None,
          compressedSize = length out, decompressedSize = 100,
          trace =
            [Called_compress Z_OK],
          outcome = Undefined_behaviour\<rparr>"
  | out rc out' where
      "compress e 100 text_str = (Z_OK, out)" and
      "length out \<le> 100" and
      "uncompress e 100 out = (rc, out')" and
      "rc \<noteq> Z_OK" and
      "main_zlib_only e =
        \<lparr>compressed = map Some out @ replicate (100 - length out) None,
          decompressed = replicate 100 None,
          compressedSize = length out, decompressedSize = 100,
          trace =
            [Called_compress Z_OK,
             Called_uncompress rc,
             Printed Stdout (''Fehler bei uncompress()'' @ nl)],
          outcome = Exit 1\<rparr>"
  | out out' where
      "compress e 100 text_str = (Z_OK, out)" and
      "length out \<le> 100" and
      "uncompress e 100 out = (Z_OK, out')" and
      "100 < length out'" and
      "main_zlib_only e =
        \<lparr>compressed = map Some out @ replicate (100 - length out) None,
          decompressed = replicate 100 None,
          compressedSize = length out, decompressedSize = length out',
          trace =
            [Called_compress Z_OK,
             Called_uncompress Z_OK],
          outcome = Undefined_behaviour\<rparr>"
  | out out' where
      "compress e 100 text_str = (Z_OK, out)" and
      "length out \<le> 100" and
      "uncompress e 100 out = (Z_OK, out')" and
      "length out' = 100" and
      "main_zlib_only e =
        \<lparr>compressed = map Some out @ replicate (100 - length out) None,
          decompressed = map Some out',
          compressedSize = length out, decompressedSize = 100,
          trace =
            [Called_compress Z_OK,
             Called_uncompress Z_OK],
          outcome = Undefined_behaviour\<rparr>"
  | out out' where
      "compress e 100 text_str = (Z_OK, out)" and
      "length out \<le> 100" and
      "uncompress e 100 out = (Z_OK, out')" and
      "length out' < 100" and
      "main_zlib_only e =
        \<lparr>compressed = map Some out @ replicate (100 - length out) None,
          decompressed = map Some out' @ Some NUL # replicate (100 - Suc (length out')) None,
          compressedSize = length out, decompressedSize = length out',
          trace =
            [Called_compress Z_OK,
             Called_uncompress Z_OK,
             Printed Stdout (''Original: '' @ text_str @ nl),
             Printed Stdout (''Dekomprimiert: '' @ c_lit out' @ nl)],
          outcome = Exit 0\<rparr>"
proof -
  obtain rc out where c: "compress e 100 text_str = (rc, out)"
    by (cases "compress e 100 text_str")
  obtain rc' out' where u: "uncompress e 100 out = (rc', out')"
    by (cases "uncompress e 100 out")
  consider "rc \<noteq> Z_OK" | "rc = Z_OK" "100 < length out"
    | "rc = Z_OK" "length out \<le> 100" "rc' \<noteq> Z_OK"
    | "rc = Z_OK" "length out \<le> 100" "rc' = Z_OK" "100 < length out'"
    | "rc = Z_OK" "length out \<le> 100" "rc' = Z_OK" "length out' = 100"
    | "rc = Z_OK" "length out \<le> 100" "rc' = Z_OK" "length out' < 100"
    by linarith
  then show ?thesis
  proof cases
    case 1
    with c u show ?thesis
      by (intro that(1)) (simp_all add: main_zlib_only_def main_simps)
  next
    case 2
    with c u show ?thesis
      by (intro that(2)) (simp_all add: main_zlib_only_def main_simps)
  next
    case 3
    with c u show ?thesis
      by (intro that(3)) (simp_all add: main_zlib_only_def main_simps)
  next
    case 4
    with c u show ?thesis
      by (intro that(4)) (simp_all add: main_zlib_only_def main_simps)
  next
    case 5
    with c u show ?thesis
      by (intro that(5)) (simp_all add: main_zlib_only_def main_simps)
  next
    case 6
    with c u show ?thesis
      by (intro that(6)) (simp_all add: main_zlib_only_def main_simps)
  qed
qed

section \<open>Facts about the test doubles\<close>

lemmas observations =
  compress_succeeded_def compress_failed_def uncompress_called_def uncompress_succeeded_def
  uncompress_failed_def version_queried_def version_query_succeeded_def
  version_query_failed_def stdout_def stderr_def

lemma length_text_str: "length text_str = 32"
  by (simp add: text_str_def)

lemma fmt_lu_digit: "n < 10 \<Longrightarrow> fmt_lu n = [digit n]"
  by (simp add: fmt_lu.simps)

lemma fmt_lu_more: "10 \<le> n \<Longrightarrow> fmt_lu n = fmt_lu (n div 10) @ [digit (n mod 10)]"
  by (simp add: fmt_lu.simps)

lemma fmt_lu_0: "fmt_lu 0 = ''0''"
  by (simp add: fmt_lu_digit digit_def)

lemma fmt_lu_10643: "fmt_lu 10643 = ''10643''"
  by (simp add: fmt_lu_digit fmt_lu_more digit_def)

lemma c_lit_plain: "NUL \<notin> set s \<Longrightarrow> c_lit s = s"
  by (auto simp add: c_lit_def)

lemma load_prefix: "load (map Some out @ rest) (length out) = Some out"
  by (simp add: load_def comp_def)

lemma load_text_str: "load (map Some text_str @ rest) 32 = Some text_str"
  using load_prefix [of text_str rest] by (simp add: length_text_str)

lemmas doubles =
  good_libs_def no_compress_libs_def no_uncompress_libs_def no_version_libs_def
  lying_libs_def full_libs_def bursting_libs_def test_libs_def stored_compress_def
  stored_uncompress_def failing_def answering_def length_text_str Z_OK_def

lemma trace_good_libs:
  "trace (main good_libs) =
     [Called_compress Z_OK, Called_uncompress Z_OK,
      Printed Stdout (''Original:     '' @ text_str @ nl),
      Printed Stdout (''Dekomprimiert: '' @ text_str @ nl),
      Printed Stdout (nl @ ''libpng compile-time version: 1.6.43'' @ nl),
      Called_png_access_version_number 10643,
      Printed Stdout (''libpng runtime version (numeric): 10643'' @ nl),
      Printed Stdout (''zlib und libpng sind erfolgreich gelinkt und verwendbar.'' @ nl)]"
  by (cases good_libs rule: main_cases)
     (auto simp add: doubles fmt_lu_10643 c_lit_text_str c_lit_plain NUL_def)

lemma trace_no_compress_libs:
  "trace (main no_compress_libs) =
     [Called_compress (- 5), Printed Stdout (''Fehler bei compress()'' @ nl)]"
  by (cases no_compress_libs rule: main_cases) (auto simp add: doubles)

lemma trace_no_uncompress_libs:
  "trace (main no_uncompress_libs) =
     [Called_compress Z_OK, Called_uncompress (- 3),
      Printed Stdout (''Fehler bei uncompress()'' @ nl)]"
  by (cases no_uncompress_libs rule: main_cases) (auto simp add: doubles)

lemma trace_no_version_libs:
  "trace (main no_version_libs) =
     [Called_compress Z_OK, Called_uncompress Z_OK,
      Printed Stdout (''Original:     '' @ text_str @ nl),
      Printed Stdout (''Dekomprimiert: '' @ text_str @ nl),
      Printed Stdout (nl @ ''libpng compile-time version: 1.6.43'' @ nl),
      Called_png_access_version_number 0,
      Printed Stdout (''libpng runtime version (numeric): 0'' @ nl),
      Printed Stderr (''Fehler: libpng Runtime-Version konnte nicht ermittelt werden!'' @ nl)]"
  by (cases no_version_libs rule: main_cases)
     (auto simp add: doubles fmt_lu_0 c_lit_text_str c_lit_plain NUL_def)

lemma run_lying_libs:
  "trace (main lying_libs) =
     [Called_compress Z_OK, Called_uncompress Z_OK,
      Printed Stdout (''Original:     '' @ text_str @ nl),
      Printed Stdout (''Dekomprimiert: Goodbye'' @ nl),
      Printed Stdout (nl @ ''libpng compile-time version: 1.6.43'' @ nl),
      Called_png_access_version_number 10643,
      Printed Stdout (''libpng runtime version (numeric): 10643'' @ nl),
      Printed Stdout (''zlib und libpng sind erfolgreich gelinkt und verwendbar.'' @ nl)]
   \<and> decompressedSize (main lying_libs) = 7
   \<and> load (decompressed (main lying_libs)) 7 = Some ''Goodbye''
   \<and> c_str (decompressed (main lying_libs)) = Some ''Goodbye''
   \<and> outcome (main lying_libs) = Exit 0"
  by (cases lying_libs rule: main_cases)
     (auto simp add: doubles fmt_lu_10643 c_lit_plain NUL_def load_def)

lemma run_full_libs:
  "trace (main full_libs) = [Called_compress Z_OK, Called_uncompress Z_OK]
   \<and> decompressedSize (main full_libs) = 100
   \<and> outcome (main full_libs) = Undefined_behaviour"
  by (cases full_libs rule: main_cases) (auto simp add: doubles)

text \<open>\<^verbatim>\<open>main\<close> does not look at the length that \<^verbatim>\<open>compress\<close> reports: a library that
  stores more than the capacity has left the array before \<^verbatim>\<open>main\<close> goes on.\<close>

lemma run_bursting_libs:
  "trace (main bursting_libs) = [Called_compress Z_OK]
   \<and> compressedSize (main bursting_libs) = 101
   \<and> outcome (main bursting_libs) = Undefined_behaviour"
  by (cases bursting_libs rule: main_cases) (auto simp add: doubles)

lemma run_zlib_only_good_libs:
  "trace (main_zlib_only good_libs) =
     [Called_compress Z_OK, Called_uncompress Z_OK,
      Printed Stdout (''Original: '' @ text_str @ nl),
      Printed Stdout (''Dekomprimiert: '' @ text_str @ nl)]"
  by (cases good_libs rule: main_zlib_only_cases)
     (auto simp add: doubles c_lit_text_str)

lemma zlib_contract_good_libs: "zlib_contract good_libs"
  by (auto simp add: zlib_contract_def compress_bounded_def uncompress_inverts_def doubles
      split: if_splits list.splits)

lemma contract_fits:
  assumes "zlib_contract e" and "compress e cap src = (Z_OK, out)"
  shows "length out \<le> cap"
  using assms unfolding zlib_contract_def compress_bounded_def by blast

lemma contract_in_main:
  assumes "zlib_contract e" and "compress e 100 text_str = (Z_OK, out)"
    and "uncompress e 100 out = (Z_OK, out')"
  shows "out' = text_str" and "length out' = 32"
proof -
  from assms show "out' = text_str"
    unfolding zlib_contract_def uncompress_inverts_def by blast
  then show "length out' = 32"
    by (simp add: length_text_str)
qed

text \<open>With a library that meets the contract every run of \<^verbatim>\<open>main\<close> is defined: the
  compressed bytes fit, and the payload is the 32-byte text, so the terminator and the
  \<^verbatim>\<open>%s\<close> read stay inside the array.\<close>

lemma defined_under_contract:
  assumes "zlib_contract e"
  shows "outcome (main e) \<noteq> Undefined_behaviour"
proof (cases e rule: main_cases)
  case (compress_overflow out)
  with contract_fits [OF assms compress_overflow(1)] show ?thesis
    by simp
next
  case (uncompress_overflow out out')
  with contract_in_main(2) [OF assms uncompress_overflow(1,3)] show ?thesis
    by simp
next
  case (terminator_outside out out')
  with contract_in_main(2) [OF assms terminator_outside(1,3)] show ?thesis
    by simp
qed simp_all

section \<open>The claims of the specification\<close>

text \<open>
  Claim C1. For the fixed text, when the compression call and the decompression call
  both return \<^verbatim>\<open>Z_OK\<close>, the decompressed array holds the text byte for byte up to
  \<^verbatim>\<open>decompressedSize\<close>, and \<^verbatim>\<open>decompressedSize\<close> is the length of the text. This
  holds in both copies of the program, for every compression library that meets its
  contract: \<^verbatim>\<open>main\<close> hands \<^verbatim>\<open>uncompress\<close> exactly the bytes and the length that
  \<^verbatim>\<open>compress\<close> produced, and the terminator is written behind the payload.
\<close>

theorem roundtrip_reproduces_text:
  assumes "zlib_contract e" and "r = main e \<or> r = main_zlib_only e"
    and "compress_succeeded r" and "uncompress_succeeded r"
  shows "decompressedSize r = strlen text_str
           \<and> load (decompressed r) (decompressedSize r) = Some text_str"
proof -
  have main: "decompressedSize (main e) = strlen text_str
      \<and> load (decompressed (main e)) (decompressedSize (main e)) = Some text_str"
    if ok: "compress_succeeded (main e)" "uncompress_succeeded (main e)"
  proof (cases e rule: main_cases)
    case (uncompress_overflow out out')
    with contract_in_main(2) [OF assms(1) uncompress_overflow(1,3)] show ?thesis
      by simp
  next
    case (terminator_outside out out')
    with contract_in_main(2) [OF assms(1) terminator_outside(1,3)] show ?thesis
      by simp
  next
    case (version_failed out out')
    with contract_in_main(1) [OF assms(1) version_failed(1,3)] show ?thesis
      by (simp add: strlen_text_str length_text_str load_text_str)
  next
    case (success out out')
    with contract_in_main(1) [OF assms(1) success(1,3)] show ?thesis
      by (simp add: strlen_text_str length_text_str load_text_str)
  qed (use ok in \<open>simp_all add: observations\<close>)
  have zlib_only: "decompressedSize (main_zlib_only e) = strlen text_str
      \<and> load (decompressed (main_zlib_only e)) (decompressedSize (main_zlib_only e))
          = Some text_str"
    if ok: "compress_succeeded (main_zlib_only e)" "uncompress_succeeded (main_zlib_only e)"
  proof (cases e rule: main_zlib_only_cases)
    case (uncompress_overflow out out')
    with contract_in_main(2) [OF assms(1) uncompress_overflow(1,3)] show ?thesis
      by simp
  next
    case (terminator_outside out out')
    with contract_in_main(2) [OF assms(1) terminator_outside(1,3)] show ?thesis
      by simp
  next
    case (success out out')
    with contract_in_main(1) [OF assms(1) success(1,3)] show ?thesis
      by (simp add: strlen_text_str length_text_str load_text_str)
  qed (use ok in \<open>simp_all add: observations\<close>)
  from assms(2-4) main zlib_only show ?thesis
    by blast
qed

theorem roundtrip_reproduces_text_witness:
  "zlib_contract good_libs
     \<and> compress_succeeded (main good_libs) \<and> uncompress_succeeded (main good_libs)
     \<and> decompressedSize (main good_libs) = 32
     \<and> load (decompressed (main good_libs)) 32 = Some text_str
     \<and> compress_succeeded (main_zlib_only good_libs)
     \<and> uncompress_succeeded (main_zlib_only good_libs)
     \<and> decompressedSize (main_zlib_only good_libs) = 32
     \<and> load (decompressed (main_zlib_only good_libs)) 32 = Some text_str"
proof -
  have ok: "compress_succeeded (main good_libs)" "uncompress_succeeded (main good_libs)"
    by (simp_all add: observations trace_good_libs)
  have ok': "compress_succeeded (main_zlib_only good_libs)"
    "uncompress_succeeded (main_zlib_only good_libs)"
    by (simp_all add: observations run_zlib_only_good_libs)
  from roundtrip_reproduces_text [OF zlib_contract_good_libs disjI1 [OF refl] ok]
    roundtrip_reproduces_text [OF zlib_contract_good_libs disjI2 [OF refl] ok']
  show ?thesis
    using zlib_contract_good_libs ok ok' by (clarsimp simp add: strlen_text_str)
qed

text \<open>
  Claim C2. The exit status is 0 exactly when the compression call, the decompression
  call and the version query all succeeded, and it is 1 when one of them failed. (A
  run that stops in undefined behaviour has no exit status and made no version query.)
\<close>

theorem exit_zero_iff_all_succeed:
  "(outcome (main e) = Exit 0 \<longleftrightarrow>
      compress_succeeded (main e) \<and> uncompress_succeeded (main e)
        \<and> version_query_succeeded (main e))
   \<and> (compress_failed (main e) \<or> uncompress_failed (main e) \<or> version_query_failed (main e)
        \<longrightarrow> outcome (main e) = Exit 1)"
  by (cases e rule: main_cases) (simp_all add: observations)

theorem exit_zero_iff_all_succeed_witness:
  "outcome (main good_libs) = Exit 0
     \<and> compress_succeeded (main good_libs) \<and> uncompress_succeeded (main good_libs)
     \<and> version_query_succeeded (main good_libs)
     \<and> compress_failed (main no_compress_libs) \<and> outcome (main no_compress_libs) = Exit 1
     \<and> uncompress_failed (main no_uncompress_libs) \<and> outcome (main no_uncompress_libs) = Exit 1
     \<and> version_query_failed (main no_version_libs) \<and> outcome (main no_version_libs) = Exit 1"
proof -
  have "compress_succeeded (main good_libs)" "uncompress_succeeded (main good_libs)"
    "version_query_succeeded (main good_libs)"
    by (simp_all add: observations trace_good_libs)
  moreover have "compress_failed (main no_compress_libs)"
    by (simp add: observations trace_no_compress_libs Z_OK_def)
  moreover have "uncompress_failed (main no_uncompress_libs)"
    by (simp add: observations trace_no_uncompress_libs Z_OK_def)
  moreover have "version_query_failed (main no_version_libs)"
    by (simp add: observations trace_no_version_libs)
  ultimately show ?thesis
    using exit_zero_iff_all_succeed [of good_libs]
      exit_zero_iff_all_succeed [of no_compress_libs]
      exit_zero_iff_all_succeed [of no_uncompress_libs]
      exit_zero_iff_all_succeed [of no_version_libs]
    by simp
qed

text \<open>
  Claim C3. When \<^verbatim>\<open>compress\<close> returns a status other than \<^verbatim>\<open>Z_OK\<close>, the program exits
  with status 1 and never calls \<^verbatim>\<open>uncompress\<close>.
\<close>

theorem compress_failure_exits_before_uncompress:
  assumes "compress_failed (main e)"
  shows "outcome (main e) = Exit 1 \<and> \<not> uncompress_called (main e)"
  using assms by (cases e rule: main_cases) (simp_all add: observations)

theorem compress_failure_exits_before_uncompress_witness:
  "compress_failed (main no_compress_libs)
     \<and> outcome (main no_compress_libs) = Exit 1 \<and> \<not> uncompress_called (main no_compress_libs)"
proof -
  have failed: "compress_failed (main no_compress_libs)"
    by (simp add: compress_failed_def trace_no_compress_libs Z_OK_def)
  with compress_failure_exits_before_uncompress [OF failed] show ?thesis
    by simp
qed

text \<open>
  Claim C4. When compression succeeds and \<^verbatim>\<open>uncompress\<close> returns a status other than
  \<^verbatim>\<open>Z_OK\<close>, the program exits with status 1 without reporting versions: the runtime
  version is not queried, and the only output is the failure line.
\<close>

theorem uncompress_failure_exits_before_versions:
  assumes "compress_succeeded (main e)" and "uncompress_failed (main e)"
  shows "outcome (main e) = Exit 1 \<and> \<not> version_queried (main e)
           \<and> stdout (main e) = [''Fehler bei uncompress()'' @ nl] \<and> stderr (main e) = []"
  using assms by (cases e rule: main_cases) (simp_all add: observations)

theorem uncompress_failure_exits_before_versions_witness:
  "compress_succeeded (main no_uncompress_libs) \<and> uncompress_failed (main no_uncompress_libs)
     \<and> outcome (main no_uncompress_libs) = Exit 1 \<and> \<not> version_queried (main no_uncompress_libs)
     \<and> stdout (main no_uncompress_libs) = [''Fehler bei uncompress()'' @ nl]
     \<and> stderr (main no_uncompress_libs) = []"
proof -
  have "compress_succeeded (main no_uncompress_libs)"
    and "uncompress_failed (main no_uncompress_libs)"
    by (simp_all add: observations trace_no_uncompress_libs Z_OK_def)
  with uncompress_failure_exits_before_versions [of no_uncompress_libs] show ?thesis
    by simp
qed

text \<open>
  Claim C5. When compression and decompression succeed and the version query returns
  the sentinel 0, the program writes one diagnostic line to standard error and exits
  with status 1.
\<close>

theorem version_sentinel_reported_on_stderr:
  assumes "compress_succeeded (main e)" and "uncompress_succeeded (main e)"
    and "version_query_failed (main e)"
  shows "stderr (main e) = [''Fehler: libpng Runtime-Version konnte nicht ermittelt werden!'' @ nl]
           \<and> outcome (main e) = Exit 1"
  using assms by (cases e rule: main_cases) (simp_all add: observations)

theorem version_sentinel_reported_on_stderr_witness:
  "compress_succeeded (main no_version_libs) \<and> uncompress_succeeded (main no_version_libs)
     \<and> version_query_failed (main no_version_libs)
     \<and> stderr (main no_version_libs)
         = [''Fehler: libpng Runtime-Version konnte nicht ermittelt werden!'' @ nl]
     \<and> outcome (main no_version_libs) = Exit 1"
proof -
  have "compress_succeeded (main no_version_libs)"
    and "uncompress_succeeded (main no_version_libs)"
    and "version_query_failed (main no_version_libs)"
    by (simp_all add: observations trace_no_version_libs)
  with version_sentinel_reported_on_stderr [of no_version_libs] show ?thesis
    by simp
qed

text \<open>
  Claim C6. After a successful decompression the NUL terminator is written at index
  \<^verbatim>\<open>decompressedSize\<close> of the 100-byte array. The index is inside the array for every
  library that meets the contract (the payload is the 32-byte text). Nothing in the
  program checks the index: a decompression that reports success and a length of 100
  or more leads to undefined behaviour.
\<close>

theorem terminator_at_decompressedSize:
  assumes "r = main e \<or> r = main_zlib_only e" and "uncompress_succeeded r"
  shows "(decompressedSize r < 100 \<longrightarrow>
            length (decompressed r) = 100 \<and> decompressed r ! decompressedSize r = Some NUL)
       \<and> (zlib_contract e \<longrightarrow> decompressedSize r < 100)
       \<and> (\<not> decompressedSize r < 100 \<longrightarrow> outcome r = Undefined_behaviour)"
proof -
  have main: "(decompressedSize (main e) < 100 \<longrightarrow>
            length (decompressed (main e)) = 100
              \<and> decompressed (main e) ! decompressedSize (main e) = Some NUL)
       \<and> (zlib_contract e \<longrightarrow> decompressedSize (main e) < 100)
       \<and> (\<not> decompressedSize (main e) < 100 \<longrightarrow> outcome (main e) = Undefined_behaviour)"
    if ok: "uncompress_succeeded (main e)"
  proof (cases e rule: main_cases)
    case (uncompress_overflow out out')
    with contract_in_main(2) [OF _ uncompress_overflow(1,3)] show ?thesis
      by auto
  next
    case (terminator_outside out out')
    with contract_in_main(2) [OF _ terminator_outside(1,3)] show ?thesis
      by auto
  next
    case (version_failed out out')
    then show ?thesis
      by (simp add: nth_append)
  next
    case (success out out')
    then show ?thesis
      by (simp add: nth_append)
  qed (use ok in \<open>simp_all add: observations\<close>)
  have zlib_only: "(decompressedSize (main_zlib_only e) < 100 \<longrightarrow>
            length (decompressed (main_zlib_only e)) = 100
              \<and> decompressed (main_zlib_only e) ! decompressedSize (main_zlib_only e)
                  = Some NUL)
       \<and> (zlib_contract e \<longrightarrow> decompressedSize (main_zlib_only e) < 100)
       \<and> (\<not> decompressedSize (main_zlib_only e) < 100
            \<longrightarrow> outcome (main_zlib_only e) = Undefined_behaviour)"
    if ok: "uncompress_succeeded (main_zlib_only e)"
  proof (cases e rule: main_zlib_only_cases)
    case (uncompress_overflow out out')
    with contract_in_main(2) [OF _ uncompress_overflow(1,3)] show ?thesis
      by auto
  next
    case (terminator_outside out out')
    with contract_in_main(2) [OF _ terminator_outside(1,3)] show ?thesis
      by auto
  next
    case (success out out')
    then show ?thesis
      by (simp add: nth_append)
  qed (use ok in \<open>simp_all add: observations\<close>)
  from assms main zlib_only show ?thesis
    by blast
qed

theorem terminator_at_decompressedSize_witness:
  "uncompress_succeeded (main good_libs) \<and> zlib_contract good_libs
     \<and> decompressedSize (main good_libs) < 100
     \<and> length (decompressed (main good_libs)) = 100
     \<and> decompressed (main good_libs) ! decompressedSize (main good_libs) = Some NUL
     \<and> uncompress_succeeded (main_zlib_only good_libs)
     \<and> decompressedSize (main_zlib_only good_libs) < 100
     \<and> length (decompressed (main_zlib_only good_libs)) = 100
     \<and> decompressed (main_zlib_only good_libs) ! decompressedSize (main_zlib_only good_libs)
         = Some NUL
     \<and> uncompress_succeeded (main full_libs) \<and> \<not> decompressedSize (main full_libs) < 100
     \<and> outcome (main full_libs) = Undefined_behaviour"
proof -
  have good: "uncompress_succeeded (main good_libs)"
    by (simp add: observations trace_good_libs)
  have good': "uncompress_succeeded (main_zlib_only good_libs)"
    by (simp add: observations run_zlib_only_good_libs)
  have full: "uncompress_succeeded (main full_libs)"
    and "\<not> decompressedSize (main full_libs) < 100"
    by (simp_all add: observations run_full_libs)
  then show ?thesis
    using terminator_at_decompressedSize [OF disjI1 [OF refl] good]
      terminator_at_decompressedSize [OF disjI2 [OF refl] good']
      terminator_at_decompressedSize [OF disjI1 [OF refl] full]
      good good' zlib_contract_good_libs
    by simp
qed

text \<open>
  Claim C7. The program never compares the decompressed bytes with the text. Whenever
  both library calls succeed and the run is defined, it prints the text and whatever
  the decompressed array holds, and its exit status is decided by the version query
  alone.
\<close>

theorem exit_ignores_decompressed_content:
  assumes "compress_succeeded (main e)" and "uncompress_succeeded (main e)"
    and "outcome (main e) \<noteq> Undefined_behaviour"
  shows "outcome (main e) = Exit (if png_access_version_number e = 0 then 1 else 0)
       \<and> (\<exists>shown. c_str (decompressed (main e)) = Some shown
             \<and> take 2 (stdout (main e))
                 = [''Original:     '' @ text_str @ nl, ''Dekomprimiert: '' @ shown @ nl])"
  using assms
  by (cases e rule: main_cases) (simp_all add: observations c_str_terminated)

theorem exit_ignores_decompressed_content_witness:
  "compress_succeeded (main lying_libs) \<and> uncompress_succeeded (main lying_libs)
     \<and> outcome (main lying_libs) \<noteq> Undefined_behaviour
     \<and> load (decompressed (main lying_libs)) (decompressedSize (main lying_libs))
         \<noteq> Some text_str
     \<and> outcome (main lying_libs) = Exit 0
     \<and> c_str (decompressed (main lying_libs)) = Some ''Goodbye''
     \<and> (\<exists>shown. c_str (decompressed (main lying_libs)) = Some shown
           \<and> take 2 (stdout (main lying_libs))
               = [''Original:     '' @ text_str @ nl, ''Dekomprimiert: '' @ shown @ nl])"
proof -
  have "compress_succeeded (main lying_libs)" and "uncompress_succeeded (main lying_libs)"
    and "outcome (main lying_libs) \<noteq> Undefined_behaviour"
    by (simp_all add: observations run_lying_libs)
  moreover have "load (decompressed (main lying_libs)) (decompressedSize (main lying_libs))
                   \<noteq> Some text_str"
    by (simp add: run_lying_libs text_str_def)
  moreover have "png_access_version_number lying_libs = 10643"
    by (simp add: lying_libs_def test_libs_def)
  moreover have "c_str (decompressed (main lying_libs)) = Some ''Goodbye''"
    by (simp add: run_lying_libs)
  ultimately show ?thesis
    using exit_ignores_decompressed_content [of lying_libs] by simp
qed

text \<open>
  Claim C8. After a successful compression call \<^verbatim>\<open>compressedSize\<close> is at most the
  capacity of 100 bytes, and the compressed bytes lie inside the array. \<^verbatim>\<open>main\<close>
  passes the true capacity of the array; that an output beyond the capacity is rejected
  and not stored is the library's part of the contract.
\<close>

theorem compressedSize_within_capacity:
  assumes "compress_bounded e" and "compress_succeeded (main e)"
  shows "compressedSize (main e) \<le> 100 \<and> length (compressed (main e)) = 100
           \<and> load (compressed (main e)) (compressedSize (main e)) \<noteq> None"
proof (cases e rule: main_cases)
  case (compress_overflow out)
  from assms(1) compress_overflow(1) have "length out \<le> 100"
    unfolding compress_bounded_def by blast
  with compress_overflow(2) show ?thesis
    by simp
next
  case (compress_failed rc out)
  with assms(2) show ?thesis
    by (simp add: observations)
qed (simp_all add: load_prefix)

theorem compressedSize_within_capacity_witness:
  "compress_bounded good_libs \<and> compress_succeeded (main good_libs)
     \<and> compressedSize (main good_libs) \<le> 100 \<and> length (compressed (main good_libs)) = 100
     \<and> load (compressed (main good_libs)) (compressedSize (main good_libs)) \<noteq> None"
proof -
  have "compress_bounded good_libs"
    using zlib_contract_good_libs by (simp add: zlib_contract_def)
  moreover have "compress_succeeded (main good_libs)"
    by (simp add: observations trace_good_libs)
  ultimately show ?thesis
    using compressedSize_within_capacity [of good_libs] by simp
qed

text \<open>
  Claim C9. On a run where both library calls and the version query succeed, with a
  library that meets the contract, the exit status is 0 and standard output is the text,
  the decompressed text (the same), the compile-time version string, the runtime version
  number and the closing line; nothing is written to standard error.
\<close>

theorem successful_run_output:
  assumes "zlib_contract e" and "compress_succeeded (main e)"
    and "uncompress_succeeded (main e)" and "version_query_succeeded (main e)"
  shows "outcome (main e) = Exit 0
       \<and> stdout (main e) =
           [''Original:     '' @ text_str @ nl,
            ''Dekomprimiert: '' @ text_str @ nl,
            nl @ ''libpng compile-time version: '' @ c_lit (PNG_LIBPNG_VER_STRING e) @ nl,
            ''libpng runtime version (numeric): '' @ fmt_lu (png_access_version_number e) @ nl,
            ''zlib und libpng sind erfolgreich gelinkt und verwendbar.'' @ nl]
       \<and> stderr (main e) = []"
proof (cases e rule: main_cases)
  case (uncompress_overflow out out')
  with contract_in_main(2) [OF assms(1) uncompress_overflow(1,3)] show ?thesis
    by simp
next
  case (terminator_outside out out')
  with contract_in_main(2) [OF assms(1) terminator_outside(1,3)] show ?thesis
    by simp
next
  case (success out out')
  with contract_in_main(1) [OF assms(1) success(1,3)] show ?thesis
    by (simp add: observations c_lit_text_str)
qed (use assms(2-) in \<open>simp_all add: observations\<close>)

theorem successful_run_output_witness:
  "zlib_contract good_libs \<and> compress_succeeded (main good_libs)
     \<and> uncompress_succeeded (main good_libs) \<and> version_query_succeeded (main good_libs)
     \<and> outcome (main good_libs) = Exit 0
     \<and> stdout (main good_libs) =
           [''Original:     Hello from zlib via conda forge!'' @ nl,
            ''Dekomprimiert: Hello from zlib via conda forge!'' @ nl,
            nl @ ''libpng compile-time version: 1.6.43'' @ nl,
            ''libpng runtime version (numeric): 10643'' @ nl,
            ''zlib und libpng sind erfolgreich gelinkt und verwendbar.'' @ nl]
     \<and> stderr (main good_libs) = []"
proof -
  have "compress_succeeded (main good_libs)" and "uncompress_succeeded (main good_libs)"
    and "version_query_succeeded (main good_libs)"
    by (simp_all add: observations trace_good_libs)
  moreover have "png_access_version_number good_libs = 10643"
    and "PNG_LIBPNG_VER_STRING good_libs = ''1.6.43''"
    by (simp_all add: good_libs_def test_libs_def)
  ultimately show ?thesis
    using successful_run_output [of good_libs] zlib_contract_good_libs
    by (simp add: fmt_lu_10643 c_lit_plain NUL_def text_str_def)
qed

text \<open>
  Claim C10. The runtime version number is printed to standard output before it is
  compared with 0: when the query fails, the trace ends with the query, the line showing
  0 on standard output and the diagnostic on standard error. The failure lines for
  compression and decompression go to standard output, and standard error is written
  only when the version query failed.
\<close>

theorem diagnostics_by_stream:
  "(version_query_failed (main e) \<longrightarrow>
      (\<exists>before. trace (main e) = before @
          [Called_png_access_version_number 0,
           Printed Stdout (''libpng runtime version (numeric): 0'' @ nl),
           Printed Stderr
             (''Fehler: libpng Runtime-Version konnte nicht ermittelt werden!'' @ nl)])
      \<and> stderr (main e)
          = [''Fehler: libpng Runtime-Version konnte nicht ermittelt werden!'' @ nl])
   \<and> (compress_failed (main e) \<longrightarrow>
        stdout (main e) = [''Fehler bei compress()'' @ nl] \<and> stderr (main e) = [])
   \<and> (uncompress_failed (main e) \<longrightarrow>
        stdout (main e) = [''Fehler bei uncompress()'' @ nl] \<and> stderr (main e) = [])
   \<and> (stderr (main e) \<noteq> [] \<longrightarrow> version_query_failed (main e))"
proof (cases e rule: main_cases)
  case (version_failed out out')
  have "\<exists>before. trace (main e) = before @
          [Called_png_access_version_number 0,
           Printed Stdout (''libpng runtime version (numeric): 0'' @ nl),
           Printed Stderr
             (''Fehler: libpng Runtime-Version konnte nicht ermittelt werden!'' @ nl)]"
  proof (intro exI)
    show "trace (main e) = take 5 (trace (main e)) @
          [Called_png_access_version_number 0,
           Printed Stdout (''libpng runtime version (numeric): 0'' @ nl),
           Printed Stderr
             (''Fehler: libpng Runtime-Version konnte nicht ermittelt werden!'' @ nl)]"
      by (simp add: version_failed(6) fmt_lu_0)
  qed
  moreover have "stderr (main e)
      = [''Fehler: libpng Runtime-Version konnte nicht ermittelt werden!'' @ nl]"
    by (simp add: observations version_failed(6))
  moreover have "\<not> compress_failed (main e)" and "\<not> uncompress_failed (main e)"
    and "version_query_failed (main e)"
    by (simp_all add: observations version_failed(6))
  ultimately show ?thesis
    by blast
qed (simp_all add: observations)

theorem diagnostics_by_stream_witness:
  "version_query_failed (main no_version_libs)
     \<and> (\<exists>before. trace (main no_version_libs) = before @
          [Called_png_access_version_number 0,
           Printed Stdout (''libpng runtime version (numeric): 0'' @ nl),
           Printed Stderr
             (''Fehler: libpng Runtime-Version konnte nicht ermittelt werden!'' @ nl)])
     \<and> stderr (main no_version_libs)
          = [''Fehler: libpng Runtime-Version konnte nicht ermittelt werden!'' @ nl]
     \<and> compress_failed (main no_compress_libs)
     \<and> stdout (main no_compress_libs) = [''Fehler bei compress()'' @ nl]
     \<and> stderr (main no_compress_libs) = []
     \<and> uncompress_failed (main no_uncompress_libs)
     \<and> stdout (main no_uncompress_libs) = [''Fehler bei uncompress()'' @ nl]
     \<and> stderr (main no_uncompress_libs) = []"
proof -
  have "version_query_failed (main no_version_libs)"
    by (simp add: observations trace_no_version_libs)
  moreover have "compress_failed (main no_compress_libs)"
    by (simp add: observations trace_no_compress_libs Z_OK_def)
  moreover have "uncompress_failed (main no_uncompress_libs)"
    by (simp add: observations trace_no_uncompress_libs Z_OK_def)
  ultimately show ?thesis
    using diagnostics_by_stream [of no_version_libs] diagnostics_by_stream [of no_compress_libs]
      diagnostics_by_stream [of no_uncompress_libs]
    by simp
qed

end
